theory Spec2Isabelle
  imports Main "HOL-Library.Multiset" "HOL-Library.Sublist"
begin

section \<open>The host language: strings, dates, comparison\<close>

text \<open>
  A source string is a \<^typ>\<open>string\<close>; one \<^typ>\<open>char\<close> stands for one code unit
  in the range 0..255. \<open>String.prototype.trim\<close> removes white space and line
  terminators from both ends; in this range they are the code units 9 to 13, 32 and 160.
\<close>

definition isWhiteSpace :: "char \<Rightarrow> bool" where
  "isWhiteSpace c = (of_char c \<in> set [9, 10, 11, 12, 13, 32, 160 :: nat])"

definition trim :: "string \<Rightarrow> string" where
  "trim s = rev (dropWhile isWhiteSpace (rev (dropWhile isWhiteSpace s)))"

text \<open>\<open>s.includes(q)\<close>: \<open>q\<close> occurs in \<open>s\<close> as a contiguous run.\<close>

fun String_includes :: "string \<Rightarrow> string \<Rightarrow> bool" where
  "String_includes [] q = (q = [])"
| "String_includes (c # s) q = (prefix q (c # s) \<or> String_includes s q)"

text \<open>
  An optional string field (\<open>string | null | undefined\<close>) is an option; \<open>null\<close> and
  \<open>undefined\<close> are both \<open>None\<close>. In a condition the empty string counts as absent too:
  \<open>present\<close> keeps exactly the values that the source's \<open>if (x)\<close> and \<open>!x\<close> tests treat
  as there.
\<close>

definition present :: "string option \<Rightarrow> string option" where
  "present d = (case d of None \<Rightarrow> None | Some s \<Rightarrow> if s = [] then None else Some s)"

text \<open>
  The functions of the host that the repository calls and does not define:
  \<open>new Date(s).getTime()\<close> (\<open>None\<close> is the \<open>NaN\<close> of an invalid date),
  \<open>a.localeCompare(b)\<close> and \<open>s.toLowerCase()\<close>.
\<close>

record host =
  Date_getTime :: "string \<Rightarrow> int option"
  localeCompare :: "string \<Rightarrow> string \<Rightarrow> int"
  toLowerCase :: "string \<Rightarrow> string"

text \<open>
  Comparing and subtracting numbers that may be \<open>NaN\<close>: every comparison with \<open>NaN\<close> is
  false and every difference with \<open>NaN\<close> is \<open>NaN\<close>. \<open>now\<close> is \<open>new Date()\<close>, always valid.
\<close>

definition js_ge :: "int option \<Rightarrow> int \<Rightarrow> bool" where
  "js_ge a now = (case a of None \<Rightarrow> False | Some x \<Rightarrow> x \<ge> now)"

definition js_lt :: "int option \<Rightarrow> int \<Rightarrow> bool" where
  "js_lt a now = (case a of None \<Rightarrow> False | Some x \<Rightarrow> x < now)"

definition js_minus :: "int option \<Rightarrow> int option \<Rightarrow> int option" where
  "js_minus a b = (case a of None \<Rightarrow> None | Some x \<Rightarrow> (case b of None \<Rightarrow> None | Some y \<Rightarrow> Some (x - y)))"

text \<open>
  \<open>Array.prototype.sort(cmp)\<close> is the host's: a stable sort, in which a comparator
  result of \<open>NaN\<close> counts as 0. It is modelled as the stable insertion sort; for a
  consistent comparator every stable sort returns the same list, and for an inconsistent
  one the language leaves the order to the implementation.
\<close>

definition SortCompare :: "('a \<Rightarrow> 'a \<Rightarrow> int option) \<Rightarrow> 'a \<Rightarrow> 'a \<Rightarrow> int" where
  "SortCompare cmp x y = (case cmp x y of None \<Rightarrow> 0 | Some v \<Rightarrow> v)"

fun insert_stable :: "('a \<Rightarrow> 'a \<Rightarrow> int option) \<Rightarrow> 'a \<Rightarrow> 'a list \<Rightarrow> 'a list" where
  "insert_stable cmp x [] = [x]"
| "insert_stable cmp x (y # ys) =
     (if SortCompare cmp x y \<le> 0 then x # y # ys else y # insert_stable cmp x ys)"

definition sorted_copy :: "('a \<Rightarrow> 'a \<Rightarrow> int option) \<Rightarrow> 'a list \<Rightarrow> 'a list" where
  "sorted_copy cmp xs = foldr (insert_stable cmp) xs []"

section \<open>The data model (src/types/todo.ts)\<close>

datatype TodoPriority = high | medium | low

text \<open>The three category labels of the source, in its order (work, personal, study).\<close>

datatype TodoCategory = Work | Personal | Study

text \<open>The three status labels of the source, in its order.\<close>

datatype TodoStatus = InProgress | Completed | Overdue

record Todo =
  todo_id :: string
  user_id :: string
  title :: string
  description :: "string option"
  created_date :: string
  due_date :: "string option"
  priority :: "TodoPriority option"
  category :: "TodoCategory list option"
  completed :: bool

record TodoInput =
  data_title :: string
  data_description :: "string option"
  data_due_date :: "string option"
  data_priority :: "TodoPriority option"
  data_category :: "TodoCategory list option"

section \<open>The list view (src/app/page.tsx, HomePage)\<close>

text \<open>A filter selection is one value or the source's ``everything'' entry.\<close>

datatype 'a selection = All_items | Only 'a

datatype sort_key = By_priority | By_due_date | By_created_date | By_title

record view_state =
  searchQuery :: string
  statusFilter :: "TodoStatus selection"
  priorityFilter :: "TodoPriority selection"
  sortBy :: sort_key

text \<open>The callback of the search filter (page.tsx lines 120 to 123).\<close>

definition search_callback :: "host \<Rightarrow> string \<Rightarrow> Todo \<Rightarrow> bool" where
  "search_callback H searchQuery' t =
     (let query = toLowerCase H searchQuery'
      in String_includes (toLowerCase H (title t)) query)"

text \<open>The callback of the status filter (page.tsx lines 129 to 147), for the clock \<open>now\<close>.\<close>

definition status_callback :: "host \<Rightarrow> TodoStatus selection \<Rightarrow> int \<Rightarrow> Todo \<Rightarrow> bool" where
  "status_callback H statusFilter' now t =
     (if statusFilter' = Only Completed then completed t
      else if statusFilter' = Only InProgress then
        \<not> completed t \<and>
        (case present (due_date t) of None \<Rightarrow> True | Some s \<Rightarrow> js_ge (Date_getTime H s) now)
      else if statusFilter' = Only Overdue then
        \<not> completed t \<and>
        (case present (due_date t) of None \<Rightarrow> False | Some s \<Rightarrow> js_lt (Date_getTime H s) now)
      else True)"

text \<open>The callback of the priority filter (page.tsx line 152).\<close>

definition priority_callback :: "TodoPriority \<Rightarrow> Todo \<Rightarrow> bool" where
  "priority_callback priorityFilter' t = (priority t = Some priorityFilter')"

text \<open>The comparator of the sort (page.tsx lines 156 to 178).\<close>

definition priorityOrder :: "TodoPriority \<Rightarrow> int" where
  "priorityOrder p = (case p of high \<Rightarrow> 3 | medium \<Rightarrow> 2 | low \<Rightarrow> 1)"

definition or_low :: "TodoPriority option \<Rightarrow> TodoPriority" where
  "or_low p = (case p of None \<Rightarrow> low | Some q \<Rightarrow> q)"

definition compareFn :: "host \<Rightarrow> sort_key \<Rightarrow> Todo \<Rightarrow> Todo \<Rightarrow> int option" where
  "compareFn H sortBy' a b =
     (case sortBy' of
        By_priority \<Rightarrow>
          (let aPriority = priorityOrder (or_low (priority a));
               bPriority = priorityOrder (or_low (priority b))
           in Some (bPriority - aPriority))
      | By_due_date \<Rightarrow>
          (case present (due_date a) of
             None \<Rightarrow> (case present (due_date b) of None \<Rightarrow> Some 0 | Some y \<Rightarrow> Some 1)
           | Some x \<Rightarrow>
               (case present (due_date b) of
                  None \<Rightarrow> Some (- 1)
                | Some y \<Rightarrow> js_minus (Date_getTime H x) (Date_getTime H y)))
      | By_created_date \<Rightarrow>
          js_minus (Date_getTime H (created_date b)) (Date_getTime H (created_date a))
      | By_title \<Rightarrow> Some (localeCompare H (title a) (title b)))"

text \<open>
  Arrays live in a store: a reference is an index into the list of arrays allocated so
  far. The spread copy \<open>[...todos]\<close> and \<open>filter\<close> allocate a new array; \<open>sort\<close>
  overwrites the array it is called on and returns the same reference.
\<close>

type_synonym store = "Todo list list"

definition alloc :: "Todo list \<Rightarrow> store \<Rightarrow> store \<times> nat" where
  "alloc xs h = (h @ [xs], length h)"

definition spread :: "nat \<Rightarrow> store \<Rightarrow> store \<times> nat" where
  "spread a h = alloc (h ! a) h"

definition Array_filter :: "(Todo \<Rightarrow> bool) \<Rightarrow> nat \<Rightarrow> store \<Rightarrow> store \<times> nat" where
  "Array_filter p a h = alloc (filter p (h ! a)) h"

definition Array_sort :: "(Todo \<Rightarrow> Todo \<Rightarrow> int option) \<Rightarrow> nat \<Rightarrow> store \<Rightarrow> store \<times> nat" where
  "Array_sort cmp a h = (h[a := sorted_copy cmp (h ! a)], a)"

text \<open>
  \<open>filteredAndSortedTodos\<close> (page.tsx lines 115 to 181): \<open>todos_ref\<close> is the reference
  to the array \<open>todos\<close> of the component's state, \<open>now\<close> the clock read by the status filter.
\<close>

definition filteredAndSortedTodos ::
  "host \<Rightarrow> int \<Rightarrow> view_state \<Rightarrow> nat \<Rightarrow> store \<Rightarrow> store \<times> nat" where
  "filteredAndSortedTodos H now st todos_ref h0 =
     (let (h1, filtered) = spread todos_ref h0;
          (h2, filtered) =
            (if trim (searchQuery st) \<noteq> []
             then Array_filter (search_callback H (searchQuery st)) filtered h1
             else (h1, filtered));
          (h3, filtered) =
            (if statusFilter st \<noteq> All_items
             then Array_filter (status_callback H (statusFilter st) now) filtered h2
             else (h2, filtered));
          (h4, filtered) =
            (case priorityFilter st of
               All_items \<Rightarrow> (h3, filtered)
             | Only p \<Rightarrow> Array_filter (priority_callback p) filtered h3)
      in Array_sort (compareFn H (sortBy st)) filtered h4)"

text \<open>
  The list that the view holds for a stored list \<open>xs\<close>, as a value: a filter that is
  switched off lets every task pass.
\<close>

definition search_passes :: "host \<Rightarrow> string \<Rightarrow> Todo \<Rightarrow> bool" where
  "search_passes H q t = (trim q = [] \<or> search_callback H q t)"

definition status_passes :: "host \<Rightarrow> TodoStatus selection \<Rightarrow> int \<Rightarrow> Todo \<Rightarrow> bool" where
  "status_passes H sel now t = (sel = All_items \<or> status_callback H sel now t)"

definition priority_passes :: "TodoPriority selection \<Rightarrow> Todo \<Rightarrow> bool" where
  "priority_passes sel t = (case sel of All_items \<Rightarrow> True | Only p \<Rightarrow> priority_callback p t)"

definition view_of :: "host \<Rightarrow> int \<Rightarrow> view_state \<Rightarrow> Todo list \<Rightarrow> Todo list" where
  "view_of H now st xs =
     sorted_copy (compareFn H (sortBy st))
       (filter (priority_passes (priorityFilter st))
         (filter (status_passes H (statusFilter st) now)
           (filter (search_passes H (searchQuery st)) xs)))"

text \<open>The host reads the due date of a task, when the task has one, as a time.\<close>

definition readable :: "host \<Rightarrow> Todo \<Rightarrow> bool" where
  "readable H t = (case present (due_date t) of None \<Rightarrow> True | Some d \<Rightarrow> Date_getTime H d \<noteq> None)"

text \<open>Exactly one of three conditions holds.\<close>

definition exactly_one :: "bool \<Rightarrow> bool \<Rightarrow> bool \<Rightarrow> bool" where
  "exactly_one p q r = ((p \<and> \<not> q \<and> \<not> r) \<or> (\<not> p \<and> q \<and> \<not> r) \<or> (\<not> p \<and> \<not> q \<and> r))"


section \<open>The handlers of the page (src/app/page.tsx, HomePage)\<close>

text \<open>
  The component's state. \<open>user\<close> is the signed-in user's identifier (\<open>null\<close> before
  sign-in). A handler returns the new state and the effects it performed, in order.
\<close>

record page =
  user :: "string option"
  todos :: "Todo list"
  editingTodo :: "Todo option"
  isLoadingTodos :: bool
  isFormLoading :: bool

text \<open>The row that \<open>handleSubmit\<close> sends to the table.\<close>

record row =
  row_title :: string
  row_description :: "string option"
  row_due_date :: "string option"
  row_priority :: TodoPriority
  row_category :: "TodoCategory list"

text \<open>
  Effects: an alert (one constructor per message of the source), a console line, an
  awaited request to the table, and a state setter.
\<close>

datatype event =
    Alert_login_required
  | Alert_load_failed
  | Alert_save_failed
  | Alert_status_failed
  | Console_error
  | Await_select string
  | Await_insert string row
  | Await_update_fields string string row
  | Await_update_completed string string bool
  | Set_todos "Todo list"
  | Set_editingTodo_null
  | Set_isLoadingTodos bool
  | Set_isFormLoading bool

text \<open>What a request to the table answers: an error (or a rejection), or its data.\<close>

datatype select_result = Select_error | Select_data "Todo list option"

datatype write_result = Write_error | Write_ok

text \<open>\<open>fetchTodos\<close> (page.tsx lines 88 to 110).\<close>

definition fetchTodos :: "select_result \<Rightarrow> string \<Rightarrow> page \<Rightarrow> page \<times> event list" where
  "fetchTodos answer userId s =
     (case answer of
        Select_data data \<Rightarrow>
          (let xs = (case data of None \<Rightarrow> [] | Some ys \<Rightarrow> ys)
           in (s\<lparr>todos := xs, isLoadingTodos := False\<rparr>,
               [Set_isLoadingTodos True, Await_select userId, Set_todos xs,
                Set_isLoadingTodos False]))
      | Select_error \<Rightarrow>
          (s\<lparr>isLoadingTodos := False\<rparr>,
           [Set_isLoadingTodos True, Await_select userId, Console_error, Alert_load_failed,
            Set_isLoadingTodos False]))"

text \<open>\<open>handleSubmit\<close> of the page (page.tsx lines 186 to 240).\<close>

definition or_medium :: "TodoPriority option \<Rightarrow> TodoPriority" where
  "or_medium p = (case p of None \<Rightarrow> medium | Some q \<Rightarrow> q)"

definition row_of :: "TodoInput \<Rightarrow> row" where
  "row_of d =
     \<lparr>row_title = data_title d,
      row_description = present (data_description d),
      row_due_date = present (data_due_date d),
      row_priority = or_medium (data_priority d),
      row_category = (case data_category d of None \<Rightarrow> [] | Some cs \<Rightarrow> cs)\<rparr>"

definition HomePage_handleSubmit ::
  "write_result \<Rightarrow> select_result \<Rightarrow> TodoInput \<Rightarrow> page \<Rightarrow> page \<times> event list" where
  "HomePage_handleSubmit written answer d s =
     (case user s of
        None \<Rightarrow> (s, [Alert_login_required])
      | Some uid \<Rightarrow>
          (let request =
                 (case editingTodo s of
                    Some e \<Rightarrow> Await_update_fields (todo_id e) uid (row_of d)
                  | None \<Rightarrow> Await_insert uid (row_of d))
           in case written of
                Write_error \<Rightarrow>
                  (s\<lparr>isFormLoading := False\<rparr>,
                   [Set_isFormLoading True, request, Console_error, Alert_save_failed,
                    Set_isFormLoading False])
              | Write_ok \<Rightarrow>
                  (let s1 = (case editingTodo s of Some e \<Rightarrow> s\<lparr>editingTodo := None\<rparr> | None \<Rightarrow> s);
                       cleared = (case editingTodo s of Some e \<Rightarrow> [Set_editingTodo_null] | None \<Rightarrow> []);
                       (s2, fetched) = fetchTodos answer uid s1
                   in (s2\<lparr>isFormLoading := False\<rparr>,
                       [Set_isFormLoading True, request] @ cleared @ fetched @
                       [Set_isFormLoading False]))))"

text \<open>
  \<open>handleToggleComplete\<close> (page.tsx lines 245 to 281). \<open>toggle_local\<close> is the function
  given to \<open>setTodos\<close> at lines 270 to 272.
\<close>

definition toggle_local :: "string \<Rightarrow> Todo list \<Rightarrow> Todo list" where
  "toggle_local i prev = map (\<lambda>t. if todo_id t = i then t\<lparr>completed := \<not> completed t\<rparr> else t) prev"

definition handleToggleComplete ::
  "write_result \<Rightarrow> select_result \<Rightarrow> string \<Rightarrow> page \<Rightarrow> page \<times> event list" where
  "handleToggleComplete written answer i s =
     (case user s of
        None \<Rightarrow> (s, [Alert_login_required])
      | Some uid \<Rightarrow>
          (case find (\<lambda>t. todo_id t = i) (todos s) of
             None \<Rightarrow> (s, [])
           | Some todo \<Rightarrow>
               (case written of
                  Write_ok \<Rightarrow>
                    (let xs = toggle_local i (todos s)
                     in (s\<lparr>todos := xs\<rparr>,
                         [Await_update_completed i uid (\<not> completed todo), Set_todos xs]))
                | Write_error \<Rightarrow>
                    (let (s1, fetched) = fetchTodos answer uid s
                     in (s1,
                         [Await_update_completed i uid (\<not> completed todo), Console_error,
                          Alert_status_failed] @ fetched)))))"

section \<open>The parsing endpoint (POST of the route /api/parse-todo)\<close>

text \<open>The object that the schema \<open>TodoSchema\<close> admits.\<close>

record TodoSchema =
  schema_title :: string
  schema_due_date :: "string option"
  schema_due_time :: "string option"
  schema_priority :: TodoPriority
  schema_category :: "TodoCategory list"
  schema_description :: "string option"

text \<open>
  A parsed JSON value; an object is the list of its properties. The handler only asks
  of a number whether it is a string, so integers stand for all numbers.
\<close>

datatype json =
    JNull
  | JBool bool
  | JNumber int
  | JString string
  | JArray "json list"
  | JObject "(string \<times> json) list"

text \<open>
  A thrown value: whether it is an \<open>Error\<close>, its message, and its \<open>statusCode\<close>
  property when it has one.
\<close>

datatype thrown = Thrown (instanceof_Error: bool) (message: string) (statusCode: "nat option")

datatype json_outcome = Json_rejected thrown | Json_resolved json

datatype model_outcome = Model_throws thrown | Model_object TodoSchema

text \<open>
  The error sentences of the endpoint, one constructor per sentence of the source; the
  fourth carries the message of the caught error.
\<close>

datatype error_text =
    Invalid_input_text
  | Empty_input
  | Service_not_configured
  | Parse_failed string
  | Unknown_parse_failure

datatype response_body = Error_json error_text | Object_json TodoSchema

record response =
  status :: nat
  body :: response_body

datatype server_effect = Console | Call_generateObject string | Fetch_models

text \<open>
  \<open>const { input } = value\<close>: reading a property of \<open>null\<close> throws a \<open>TypeError\<close>,
  which is an \<open>Error\<close>; its message is worded by the engine and is the parameter
  \<open>type_error_message\<close>. Any other value that is not an object has no property \<open>input\<close>.
\<close>

definition destructure_input :: "string \<Rightarrow> json \<Rightarrow> thrown + json option" where
  "destructure_input type_error_message v =
     (case v of
        JNull \<Rightarrow> Inl (Thrown True type_error_message None)
      | JObject props \<Rightarrow> Inr (map_of props ''input'')
      | _ \<Rightarrow> Inr None)"

definition truthy :: "json option \<Rightarrow> bool" where
  "truthy v =
     (case v of
        None \<Rightarrow> False
      | Some JNull \<Rightarrow> False
      | Some (JBool b) \<Rightarrow> b
      | Some (JNumber n) \<Rightarrow> n \<noteq> 0
      | Some (JString s) \<Rightarrow> s \<noteq> []
      | Some (JArray xs) \<Rightarrow> True
      | Some (JObject props) \<Rightarrow> True)"

definition typeof_string :: "json option \<Rightarrow> bool" where
  "typeof_string v = (case v of Some (JString s) \<Rightarrow> True | _ \<Rightarrow> False)"

text \<open>The \<open>catch\<close> block (lines 88 to 144): the listing of models only writes to the console.\<close>

definition catch_block :: "thrown \<Rightarrow> response \<times> server_effect list" where
  "catch_block e =
     (if instanceof_Error e then \<lparr>status = 500, body = Error_json (Parse_failed (message e))\<rparr>
      else \<lparr>status = 500, body = Error_json Unknown_parse_failure\<rparr>,
      Console # (if statusCode e = Some 404 then [Console, Fetch_models, Console] else []))"

text \<open>
  \<open>POST\<close> (lines 19 to 145), for the engine's wording of the \<open>TypeError\<close>, what
  \<open>request.json()\<close> yields, the value of the credential variable of the environment, and
  what the model call yields.
\<close>

definition POST ::
  "string \<Rightarrow> json_outcome \<Rightarrow> string option \<Rightarrow> model_outcome \<Rightarrow> response \<times> server_effect list" where
  "POST type_error_message request_json api_key generated =
     (case request_json of
        Json_rejected e \<Rightarrow> catch_block e
      | Json_resolved v \<Rightarrow>
          (case destructure_input type_error_message v of
             Inl e \<Rightarrow> catch_block e
           | Inr input \<Rightarrow>
               (if \<not> truthy input \<or> \<not> typeof_string input
                then (\<lparr>status = 400, body = Error_json Invalid_input_text\<rparr>, [])
                else case input of
                  Some (JString s) \<Rightarrow>
                    (if length (trim s) = 0
                     then (\<lparr>status = 400, body = Error_json Empty_input\<rparr>, [])
                     else if present api_key = None
                     then (\<lparr>status = 500, body = Error_json Service_not_configured\<rparr>, [Console])
                     else case generated of
                       Model_throws e \<Rightarrow>
                         (fst (catch_block e), Call_generateObject s # snd (catch_block e))
                     | Model_object obj \<Rightarrow>
                         (\<lparr>status = 200, body = Object_json obj\<rparr>, [Call_generateObject s]))
                | _ \<Rightarrow> (\<lparr>status = 400, body = Error_json Invalid_input_text\<rparr>, []))))"

text \<open>A response with the given status whose body is \<open>{ error: string }\<close>.\<close>

definition error_response :: "nat \<Rightarrow> response \<Rightarrow> bool" where
  "error_response code r =
     (status r = code \<and> (case body r of Error_json e \<Rightarrow> True | Object_json obj \<Rightarrow> False))"

section \<open>The form (src/components/todo/TodoForm.tsx)\<close>

record form =
  formData :: TodoInput
  selectedCategories :: "TodoCategory list"
  aiInput :: string
  isAiGenerating :: bool

datatype toast =
    Toast_enter_text
  | Toast_error
  | Toast_generated
  | Toast_generated_confirm
  | Toast_added

definition empty_formData :: TodoInput where
  "empty_formData =
     \<lparr>data_title = [], data_description = Some [], data_due_date = Some [],
      data_priority = Some medium, data_category = Some []\<rparr>"

text \<open>
  \<open>handleSubmit\<close> of the form (lines 106 to 119): the record it passes to \<open>onSubmit\<close>,
  or \<open>None\<close> when it returns without calling it.
\<close>

definition TodoForm_handleSubmit :: "form \<Rightarrow> TodoInput option" where
  "TodoForm_handleSubmit f =
     (if trim (data_title (formData f)) = [] then None
      else Some ((formData f)\<lparr>data_category := Some (selectedCategories f)\<rparr>))"

definition handleReset :: "form \<Rightarrow> form" where
  "handleReset f = f\<lparr>formData := empty_formData, selectedCategories := []\<rparr>"

text \<open>What the request to the endpoint yields in the form.\<close>

datatype api_response = Fetch_throws | Response_not_ok "string option" | Response_ok TodoSchema

text \<open>The combining step of \<open>handleAiGenerate\<close> (lines 162 to 171).\<close>

definition dueDateValue :: "TodoSchema \<Rightarrow> string" where
  "dueDateValue result =
     (case present (schema_due_date result) of
        None \<Rightarrow> []
      | Some d \<Rightarrow>
          (case present (schema_due_time result) of
             Some t \<Rightarrow> d @ ''T'' @ t
           | None \<Rightarrow> d @ ''T09:00''))"

text \<open>
  \<open>generatedData\<close> (lines 173 to 179). On an object of the schema the defaults
  \<open>|| "medium"\<close> and \<open>|| []\<close> never apply, and \<open>result.title || ""\<close> is the title.
\<close>

definition generatedData :: "TodoSchema \<Rightarrow> TodoInput" where
  "generatedData result =
     \<lparr>data_title = schema_title result,
      data_description = Some (case present (schema_description result) of None \<Rightarrow> [] | Some x \<Rightarrow> x),
      data_due_date = Some (dueDateValue result),
      data_priority = Some (schema_priority result),
      data_category = Some (schema_category result)\<rparr>"

text \<open>
  \<open>handleAiGenerate\<close> (lines 138 to 209): the new state of the form, the record passed
  to \<open>onSubmit\<close> if any, and the toasts shown.
\<close>

definition handleAiGenerate ::
  "bool \<Rightarrow> api_response \<Rightarrow> form \<Rightarrow> form \<times> TodoInput option \<times> toast list" where
  "handleAiGenerate autoSubmit answer f =
     (if trim (aiInput f) = [] then (f, None, [Toast_enter_text])
      else case answer of
        Fetch_throws \<Rightarrow> (f\<lparr>isAiGenerating := False\<rparr>, None, [Toast_error])
      | Response_not_ok msg \<Rightarrow> (f\<lparr>isAiGenerating := False\<rparr>, None, [Toast_error])
      | Response_ok result \<Rightarrow>
          (if autoSubmit
           then ((handleReset f)\<lparr>aiInput := [], isAiGenerating := False\<rparr>,
                 Some (generatedData result), [Toast_generated, Toast_added])
           else (f\<lparr>formData := generatedData result,
                   selectedCategories := schema_category result,
                   aiInput := [], isAiGenerating := False\<rparr>,
                 None, [Toast_generated_confirm])))"

section \<open>Examples of the host, for the closed instances\<close>

text \<open>
  A table of ISO time stamps with their epoch milliseconds; a string outside the table
  stands for one that the host cannot read as a date. Lower case for the letters A to Z,
  and comparison by code unit.
\<close>

definition sample_getTime :: "string \<Rightarrow> int option" where
  "sample_getTime =
     map_of [(''1970-01-01T00:00:00.000Z'', 0),
             (''1970-01-01T00:00:01.000Z'', 1000),
             (''1970-01-01T00:00:03.000Z'', 3000)]"

definition lower_char :: "char \<Rightarrow> char" where
  "lower_char c =
     (case map_of (zip ''ABCDEFGHIJKLMNOPQRSTUVWXYZ'' ''abcdefghijklmnopqrstuvwxyz'') c of
        None \<Rightarrow> c
      | Some l \<Rightarrow> l)"

fun compare_units :: "string \<Rightarrow> string \<Rightarrow> int" where
  "compare_units [] [] = 0"
| "compare_units [] (y # ys) = - 1"
| "compare_units (x # xs) [] = 1"
| "compare_units (x # xs) (y # ys) =
     (if (of_char x :: nat) < of_char y then - 1
      else if (of_char y :: nat) < of_char x then 1
      else compare_units xs ys)"

definition sample_host :: host where
  "sample_host =
     \<lparr>Date_getTime = sample_getTime, localeCompare = compare_units, toLowerCase = map lower_char\<rparr>"

definition sample_todo :: "string \<Rightarrow> string \<Rightarrow> string option \<Rightarrow> bool \<Rightarrow> Todo" where
  "sample_todo i name due done =
     \<lparr>todo_id = i, user_id = ''u1'', title = name, description = None,
      created_date = ''1970-01-01T00:00:00.000Z'', due_date = due,
      priority = Some medium, category = Some [], completed = done\<rparr>"

definition todo_notes :: Todo where
  "todo_notes = sample_todo ''t0'' ''Sort the notes'' None False"

definition todo_rent :: Todo where
  "todo_rent = sample_todo ''t1'' ''Pay rent'' (Some ''1970-01-01T00:00:01.000Z'') False"

definition todo_bank :: Todo where
  "todo_bank = sample_todo ''t2'' ''Call the bank'' (Some ''not a date'') False"

definition todo_review :: Todo where
  "todo_review = sample_todo ''t3'' ''Review the draft'' (Some ''1970-01-01T00:00:03.000Z'') False"


definition search_re :: view_state where
  "search_re =
     \<lparr>searchQuery = ''RE'', statusFilter = All_items, priorityFilter = Only medium,
      sortBy = By_title\<rparr>"

definition only_high :: view_state where
  "only_high =
     \<lparr>searchQuery = [], statusFilter = All_items, priorityFilter = Only high,
      sortBy = By_priority\<rparr>"

definition overdue_only :: view_state where
  "overdue_only =
     \<lparr>searchQuery = '' '', statusFilter = Only Overdue, priorityFilter = All_items,
      sortBy = By_created_date\<rparr>"

definition sample_page :: page where
  "sample_page =
     \<lparr>user = Some ''u1'', todos = [todo_notes, todo_rent], editingTodo = None,
      isLoadingTodos = False, isFormLoading = False\<rparr>"

definition meeting :: TodoSchema where
  "meeting =
     \<lparr>schema_title = ''Prepare the team meeting'', schema_due_date = Some ''2024-01-02'',
      schema_due_time = None, schema_priority = medium, schema_category = [Work],
      schema_description = None\<rparr>"

definition untitled :: TodoSchema where
  "untitled =
     \<lparr>schema_title = [], schema_due_date = None, schema_due_time = None,
      schema_priority = medium, schema_category = [], schema_description = None\<rparr>"

text \<open>The wording of the \<open>TypeError\<close> in Node 22.\<close>

definition node_type_error :: string where
  "node_type_error =
     ''Cannot destructure property '' @ [CHR 0x27] @ ''input'' @ [CHR 0x27] @ '' of '' @
     [CHR 0x27] @ ''(intermediate value)'' @ [CHR 0x27] @ '' as it is null.''"

definition sample_form :: form where
  "sample_form =
     \<lparr>formData = empty_formData, selectedCategories = [], aiInput = ''something for later'',
      isAiGenerating = False\<rparr>"

section \<open>Strings and the sort of the host\<close>

lemma String_includes_sublist: "String_includes s q = sublist q s"
  by (induction s) (auto simp: sublist_Cons_right)

lemma String_includes_iff: "String_includes s q = (\<exists>ps ss. s = ps @ q @ ss)"
  by (simp add: String_includes_sublist sublist_def)


lemma mset_insert_stable: "mset (insert_stable cmp x ys) = add_mset x (mset ys)"
  by (induction ys) auto

lemma mset_sorted_copy: "mset (sorted_copy cmp xs) = mset xs"
  by (induction xs) (auto simp: sorted_copy_def mset_insert_stable)

lemma set_sorted_copy: "set (sorted_copy cmp xs) = set xs"
  using mset_sorted_copy [of cmp xs] by (metis set_mset_mset)







section \<open>The view holds the filtered and sorted list\<close>

lemma filteredAndSortedTodos_view:
  assumes "a < length h0"
  shows "filteredAndSortedTodos H now st a h0 = (h', r) \<Longrightarrow>
    h' ! r = view_of H now st (h0 ! a) \<and> length h0 \<le> r \<and> r < length h' \<and>
    take (length h0) h' = h0"
  using assms
  by (auto simp: filteredAndSortedTodos_def view_of_def spread_def Array_filter_def Array_sort_def
      search_passes_def status_passes_def priority_passes_def
      alloc_def Let_def nth_append split: if_splits selection.splits prod.splits)

lemma set_view_of:
  "set (view_of H now st xs) =
   {t \<in> set xs. search_passes H (searchQuery st) t \<and> status_passes H (statusFilter st) now t \<and>
      priority_passes (priorityFilter st) t}"
  by (auto simp: view_of_def set_sorted_copy)

lemma mset_view_of: "mset (view_of H now st xs) \<subseteq># mset xs"
proof -
  have "mset (view_of H now st xs) =
    filter_mset (priority_passes (priorityFilter st))
      (filter_mset (status_passes H (statusFilter st) now)
        (filter_mset (search_passes H (searchQuery st)) (mset xs)))"
    by (simp only: view_of_def mset_sorted_copy mset_filter)
  also have "\<dots> \<subseteq># mset xs"
    by (meson multiset_filter_subset subset_mset.order_trans)
  finally show ?thesis .
qed

section \<open>The handlers, path by path\<close>

lemma handleToggleComplete_success:
  assumes "user s = Some uid" and "find (\<lambda>t. todo_id t = i) (todos s) = Some t0"
  shows "handleToggleComplete Write_ok answer i s =
    (s\<lparr>todos := toggle_local i (todos s)\<rparr>,
     [Await_update_completed i uid (\<not> completed t0), Set_todos (toggle_local i (todos s))])"
  using assms by (simp add: handleToggleComplete_def Let_def)

lemma handleToggleComplete_failure:
  assumes "user s = Some uid" and "find (\<lambda>t. todo_id t = i) (todos s) = Some t0"
  shows "handleToggleComplete Write_error answer i s =
    (fst (fetchTodos answer uid s),
     [Await_update_completed i uid (\<not> completed t0), Console_error, Alert_status_failed] @
     snd (fetchTodos answer uid s))"
  using assms by (simp add: handleToggleComplete_def split: prod.splits)

lemma TodoForm_handleSubmit_title:
  "TodoForm_handleSubmit f = Some d \<Longrightarrow> trim (data_title d) \<noteq> []"
  by (auto simp: TodoForm_handleSubmit_def split: if_splits)

lemma catch_block_500: "error_response 500 (fst (catch_block e))"
  by (simp add: catch_block_def error_response_def)

lemma trim_nonempty: "trim s \<noteq> [] \<Longrightarrow> s \<noteq> []"
  by (auto simp: trim_def)

section \<open>The status buckets\<close>

text \<open>
  Claim C1, as the code has it. For every clock \<open>now\<close> and every task whose due date, when
  it has one, is a string that the host reads as a time: the status filter for ``in
  progress'' passes the task exactly when it is not completed and has no due date or a
  due date at or after \<open>now\<close>; the filter for ``completed'' exactly when its completed
  flag is set; the filter for ``overdue'' exactly when it is not completed and has a due
  date before \<open>now\<close>; exactly one of the three passes it; and a task with no due date is
  never overdue. An empty due date string counts as no due date.
\<close>

theorem status_buckets_partition:
  assumes "readable H t"
  shows "(status_callback H (Only InProgress) now t \<longleftrightarrow>
            \<not> completed t \<and>
            (present (due_date t) = None \<or>
             (\<exists>d x. present (due_date t) = Some d \<and> Date_getTime H d = Some x \<and> now \<le> x))) \<and>
         (status_callback H (Only Completed) now t \<longleftrightarrow> completed t) \<and>
         (status_callback H (Only Overdue) now t \<longleftrightarrow>
            \<not> completed t \<and>
            (\<exists>d x. present (due_date t) = Some d \<and> Date_getTime H d = Some x \<and> x < now)) \<and>
         exactly_one (status_callback H (Only InProgress) now t)
           (status_callback H (Only Completed) now t)
           (status_callback H (Only Overdue) now t) \<and>
         (present (due_date t) = None \<longrightarrow> \<not> status_callback H (Only Overdue) now t)"
  using assms
  by (auto simp: status_callback_def exactly_one_def readable_def js_ge_def js_lt_def
      split: option.splits)

text \<open>
  An instance: at the clock 2000 the open task due at 1000 is readable, is in exactly one
  bucket, and that bucket is ``overdue''.
\<close>

theorem status_buckets_partition_witness:
  "readable sample_host todo_rent \<and>
   exactly_one
     (status_callback sample_host (Only InProgress) 2000 todo_rent)
     (status_callback sample_host (Only Completed) 2000 todo_rent)
     (status_callback sample_host (Only Overdue) 2000 todo_rent) \<and>
   status_callback sample_host (Only Overdue) 2000 todo_rent"
proof -
  have r: "readable sample_host todo_rent"
    by (simp add: readable_def sample_todo_def todo_rent_def sample_host_def sample_getTime_def present_def)
  have o: "status_callback sample_host (Only Overdue) 2000 todo_rent"
    by (simp add: status_callback_def js_lt_def sample_todo_def todo_rent_def sample_host_def sample_getTime_def present_def)
  show ?thesis
    using r o status_buckets_partition [OF r, of 2000] by blast
qed

text \<open>
  Without the condition on the due date the partition fails: an open task whose due date
  is a string that the host does not read as a date passes none of the three filters,
  because both comparisons of an invalid date with \<open>now\<close> are false.
\<close>

theorem status_buckets_counterexample:
  "\<not> (status_callback sample_host (Only InProgress) 2000 todo_bank \<or>
       status_callback sample_host (Only Completed) 2000 todo_bank \<or>
       status_callback sample_host (Only Overdue) 2000 todo_bank)"
  by (simp add: status_callback_def js_lt_def js_ge_def sample_todo_def todo_bank_def sample_host_def sample_getTime_def present_def)

section \<open>Search and the priority filter\<close>

text \<open>
  Claim C7. For every search query that is not blank, a task is in the view exactly when
  it is in the stored list, the lower-cased query occurs as a contiguous run in its
  lower-cased title, and it passes the status and priority filters; and the search
  callback gives the same answer for a task whatever its description is.
\<close>

theorem search_filter_title_only:
  assumes "trim (searchQuery st) \<noteq> []"
    and "a < length h0"
    and "filteredAndSortedTodos H now st a h0 = (h', r)"
  shows "(t \<in> set (h' ! r) \<longleftrightarrow>
            t \<in> set (h0 ! a) \<and>
            (\<exists>ps ss. toLowerCase H (title t) = ps @ toLowerCase H (searchQuery st) @ ss) \<and>
            status_passes H (statusFilter st) now t \<and>
            priority_passes (priorityFilter st) t) \<and>
         search_callback H (searchQuery st) (t\<lparr>description := d\<rparr>) =
           search_callback H (searchQuery st) t"
proof -
  have v: "h' ! r = view_of H now st (h0 ! a)"
    using filteredAndSortedTodos_view [OF assms(2) assms(3)] by simp
  have "search_passes H (searchQuery st) t \<longleftrightarrow>
      (\<exists>ps ss. toLowerCase H (title t) = ps @ toLowerCase H (searchQuery st) @ ss)"
    using assms(1) by (simp add: search_passes_def search_callback_def String_includes_iff)
  then show ?thesis
    by (simp add: v set_view_of search_callback_def)
qed

text \<open>
  An instance: the query \<open>RE\<close> over four tasks keeps ``Review the draft'' and ``Pay
  rent'', shown in the order of their titles; a description does not bring ``Sort the
  notes'' in.
\<close>

theorem search_filter_title_only_witness:
  "trim (searchQuery search_re) \<noteq> [] \<and>
   filteredAndSortedTodos sample_host 2000 search_re 0
     [[todo_notes, todo_review, todo_rent, todo_bank]] =
     ([[todo_notes, todo_review, todo_rent, todo_bank],
       [todo_notes, todo_review, todo_rent, todo_bank],
       [todo_review, todo_rent], [todo_rent, todo_review]], 3) \<and>
   (\<exists>ps ss. toLowerCase sample_host (title todo_rent) =
      ps @ toLowerCase sample_host (searchQuery search_re) @ ss) \<and>
   search_callback sample_host (searchQuery search_re) (todo_notes\<lparr>description := Some ''remember''\<rparr>) =
     search_callback sample_host (searchQuery search_re) todo_notes"
proof -
  have q: "trim (searchQuery search_re) \<noteq> []"
    by (simp add: search_re_def trim_def isWhiteSpace_def)
  have e: "filteredAndSortedTodos sample_host 2000 search_re 0
     [[todo_notes, todo_review, todo_rent, todo_bank]] =
     ([[todo_notes, todo_review, todo_rent, todo_bank],
       [todo_notes, todo_review, todo_rent, todo_bank],
       [todo_review, todo_rent], [todo_rent, todo_review]], 3)"
    by (simp add: filteredAndSortedTodos_def spread_def alloc_def Array_filter_def Array_sort_def
        sorted_copy_def SortCompare_def compareFn_def js_minus_def trim_def isWhiteSpace_def
        search_callback_def lower_char_def priority_callback_def search_re_def
        sample_todo_def todo_notes_def todo_rent_def todo_bank_def todo_review_def sample_host_def sample_getTime_def present_def)
  show ?thesis
    using q e
      search_filter_title_only [OF q _ e, of todo_rent "Some ''remember''"]
      search_filter_title_only [OF q _ e, of todo_notes "Some ''remember''"]
    by simp
qed

text \<open>
  Claim C8. For every specific priority \<open>p\<close> chosen in the priority filter, a task is in
  the view exactly when it is in the stored list, its priority field is \<open>p\<close>, and it
  passes the search and status filters; a task whose priority is absent is not in the
  view.
\<close>

theorem priority_filter_exact:
  assumes "priorityFilter st = Only p"
    and "a < length h0"
    and "filteredAndSortedTodos H now st a h0 = (h', r)"
  shows "(t \<in> set (h' ! r) \<longleftrightarrow>
            t \<in> set (h0 ! a) \<and> priority t = Some p \<and>
            search_passes H (searchQuery st) t \<and> status_passes H (statusFilter st) now t) \<and>
         (priority t = None \<longrightarrow> t \<notin> set (h' ! r))"
proof -
  have v: "h' ! r = view_of H now st (h0 ! a)"
    using filteredAndSortedTodos_view [OF assms(2) assms(3)] by simp
  show ?thesis
    by (auto simp: v set_view_of assms(1) priority_passes_def priority_callback_def)
qed

text \<open>
  An instance: with the filter on \<open>high\<close>, of a task without priority, a task of high
  priority and a task of medium priority only the second is shown.
\<close>

theorem priority_filter_exact_witness:
  "filteredAndSortedTodos sample_host 2000 only_high 0
     [[todo_notes\<lparr>priority := None\<rparr>, todo_review\<lparr>priority := Some high\<rparr>, todo_rent]] =
     ([[todo_notes\<lparr>priority := None\<rparr>, todo_review\<lparr>priority := Some high\<rparr>, todo_rent],
       [todo_notes\<lparr>priority := None\<rparr>, todo_review\<lparr>priority := Some high\<rparr>, todo_rent],
       [todo_review\<lparr>priority := Some high\<rparr>]], 2) \<and>
   todo_notes\<lparr>priority := None\<rparr> \<notin> set [todo_review\<lparr>priority := Some high\<rparr>]"
proof -
  have p: "priorityFilter only_high = Only high"
    by (simp add: only_high_def)
  have e: "filteredAndSortedTodos sample_host 2000 only_high 0
     [[todo_notes\<lparr>priority := None\<rparr>, todo_review\<lparr>priority := Some high\<rparr>, todo_rent]] =
     ([[todo_notes\<lparr>priority := None\<rparr>, todo_review\<lparr>priority := Some high\<rparr>, todo_rent],
       [todo_notes\<lparr>priority := None\<rparr>, todo_review\<lparr>priority := Some high\<rparr>, todo_rent],
       [todo_review\<lparr>priority := Some high\<rparr>]], 2)"
    by (simp add: filteredAndSortedTodos_def spread_def alloc_def Array_filter_def Array_sort_def
        sorted_copy_def SortCompare_def compareFn_def js_minus_def trim_def isWhiteSpace_def
        priority_callback_def priorityOrder_def or_low_def only_high_def
        sample_todo_def todo_notes_def todo_rent_def todo_bank_def todo_review_def sample_host_def sample_getTime_def present_def)
  show ?thesis
    using e priority_filter_exact [OF p _ e, of "todo_notes\<lparr>priority := None\<rparr>"] by simp
qed

section \<open>Sorting by due date\<close>




section \<open>The view does not touch the stored list\<close>

text \<open>
  Claim C10. Computing the view leaves the stored array of tasks, and every array that
  existed before, as it was: the result is a new array (the sort overwrites only the
  copy), and its tasks are tasks of the stored list, each at most as often as there,
  so that none is made up or repeated.
\<close>

theorem view_leaves_stored_list:
  assumes "a < length h0"
    and "filteredAndSortedTodos H now st a h0 = (h', r)"
  shows "h' ! a = h0 ! a \<and> take (length h0) h' = h0 \<and> r \<noteq> a \<and>
         mset (h' ! r) \<subseteq># mset (h0 ! a)"
proof -
  have v: "h' ! r = view_of H now st (h0 ! a)" and r: "length h0 \<le> r"
    and t: "take (length h0) h' = h0"
    using filteredAndSortedTodos_view [OF assms] by simp_all
  have "h' ! a = take (length h0) h' ! a"
    using assms(1) by simp
  then have "h' ! a = h0 ! a"
    using t by simp
  moreover have "r \<noteq> a"
    using r assms(1) by simp
  ultimately show ?thesis
    using t v mset_view_of [of H now st "h0 ! a"] by simp
qed

text \<open>
  An instance: a blank query with the status filter on ``overdue'' at the clock 2000
  allocates the copy and the filtered array, and leaves the stored four tasks in place.
\<close>

theorem view_leaves_stored_list_witness:
  "filteredAndSortedTodos sample_host 2000 overdue_only 0
     [[todo_notes, todo_review, todo_rent, todo_bank]] =
     ([[todo_notes, todo_review, todo_rent, todo_bank],
       [todo_notes, todo_review, todo_rent, todo_bank], [todo_rent]], 2) \<and>
   mset [todo_rent] \<subseteq># mset [todo_notes, todo_review, todo_rent, todo_bank]"
proof -
  have e: "filteredAndSortedTodos sample_host 2000 overdue_only 0
     [[todo_notes, todo_review, todo_rent, todo_bank]] =
     ([[todo_notes, todo_review, todo_rent, todo_bank],
       [todo_notes, todo_review, todo_rent, todo_bank], [todo_rent]], 2)"
    by (simp add: filteredAndSortedTodos_def spread_def alloc_def Array_filter_def Array_sort_def
        sorted_copy_def SortCompare_def compareFn_def js_minus_def trim_def isWhiteSpace_def
        status_callback_def js_lt_def overdue_only_def sample_todo_def todo_notes_def todo_rent_def todo_bank_def todo_review_def sample_host_def sample_getTime_def present_def)
  show ?thesis
    using e view_leaves_stored_list [OF _ e] by simp
qed

section \<open>The completion toggle\<close>

text \<open>
  Claim C9. For a signed-in user and a task of the list that is not completed and has a
  due date before \<open>now\<close>: the task is in the ``overdue'' bucket, and after the toggle of
  its identifier has gone through, the task at the same place is the same task with the
  completed flag set, is in the ``completed'' bucket, and is in neither the ``overdue''
  nor the ``in progress'' bucket at the same \<open>now\<close>.
\<close>

theorem toggle_moves_overdue_to_completed:
  assumes "user s = Some uid"
    and "k < length (todos s)"
    and "todo_id (todos s ! k) = i"
    and "\<not> completed (todos s ! k)"
    and "present (due_date (todos s ! k)) = Some d"
    and "Date_getTime H d = Some x"
    and "x < now"
  shows "status_callback H (Only Overdue) now (todos s ! k) \<and>
         todos (fst (handleToggleComplete Write_ok answer i s)) ! k = (todos s ! k)\<lparr>completed := True\<rparr> \<and>
         status_callback H (Only Completed) now (todos (fst (handleToggleComplete Write_ok answer i s)) ! k) \<and>
         \<not> status_callback H (Only Overdue) now (todos (fst (handleToggleComplete Write_ok answer i s)) ! k) \<and>
         \<not> status_callback H (Only InProgress) now (todos (fst (handleToggleComplete Write_ok answer i s)) ! k)"
proof -
  have "todos s ! k \<in> set (todos s)"
    using assms(2) by simp
  then have "find (\<lambda>t. todo_id t = i) (todos s) \<noteq> None"
    using assms(3) by (auto simp: find_None_iff)
  then obtain t0 where f: "find (\<lambda>t. todo_id t = i) (todos s) = Some t0"
    by auto
  have n: "todos (fst (handleToggleComplete Write_ok answer i s)) = toggle_local i (todos s)"
    by (simp add: handleToggleComplete_success [OF assms(1) f])
  have e: "toggle_local i (todos s) ! k = (todos s ! k)\<lparr>completed := True\<rparr>"
    using assms(2,3,4) by (simp add: toggle_local_def)
  have o: "status_callback H (Only Overdue) now (todos s ! k)"
    using assms(4-7) by (simp add: status_callback_def js_lt_def)
  show ?thesis
    using o by (simp add: n e status_callback_def)
qed

text \<open>
  An instance: at the clock 2000 the task due at 1000, second in the list, is overdue;
  after the toggle it is completed and no longer overdue.
\<close>

theorem toggle_moves_overdue_to_completed_witness:
  "status_callback sample_host (Only Overdue) 2000 (todos sample_page ! 1) \<and>
   todos (fst (handleToggleComplete Write_ok (Select_data None) ''t1'' sample_page)) ! 1 =
     todo_rent\<lparr>completed := True\<rparr> \<and>
   status_callback sample_host (Only Completed) 2000 (todo_rent\<lparr>completed := True\<rparr>) \<and>
   \<not> status_callback sample_host (Only Overdue) 2000 (todo_rent\<lparr>completed := True\<rparr>)"
proof -
  have t: "todos sample_page ! 1 = todo_rent"
    by (simp add: sample_page_def)
  have d: "present (due_date (todos sample_page ! 1)) = Some ''1970-01-01T00:00:01.000Z''"
    by (simp add: sample_page_def sample_todo_def todo_notes_def todo_rent_def todo_bank_def todo_review_def sample_host_def sample_getTime_def present_def)
  have g: "Date_getTime sample_host ''1970-01-01T00:00:01.000Z'' = Some 1000"
    by (simp add: sample_host_def sample_getTime_def present_def)
  show ?thesis
    using t toggle_moves_overdue_to_completed [of sample_page "''u1''" 1 "''t1''"
        "''1970-01-01T00:00:01.000Z''" sample_host 1000 2000 "Select_data None", OF _ _ _ _ d g]
    by (simp add: sample_page_def handleToggleComplete_def toggle_local_def
        status_callback_def js_lt_def Let_def sample_todo_def todo_notes_def todo_rent_def todo_bank_def todo_review_def sample_host_def sample_getTime_def present_def)
qed

text \<open>
  Claim C3 says that the handler updates the local list before it awaits the remote
  update, and that the error path ends in the re-fetch of the list. The code does the
  second and not the first: on the success path the awaited remote update comes first
  and the local update second; on the error path the local list has not been touched
  when the list is fetched again.
\<close>

theorem handleToggleComplete_awaits_before_update:
  "snd (handleToggleComplete Write_ok (Select_data None) ''t1'' sample_page) =
     [Await_update_completed ''t1'' ''u1'' True,
      Set_todos [todo_notes, todo_rent\<lparr>completed := True\<rparr>]] \<and>
   snd (handleToggleComplete Write_error (Select_data (Some [todo_rent])) ''t1'' sample_page) =
     [Await_update_completed ''t1'' ''u1'' True, Console_error, Alert_status_failed,
      Set_isLoadingTodos True, Await_select ''u1'', Set_todos [todo_rent],
      Set_isLoadingTodos False]"
  by (simp add: handleToggleComplete_def toggle_local_def fetchTodos_def Let_def
      sample_page_def sample_todo_def todo_notes_def todo_rent_def todo_bank_def todo_review_def)

section \<open>The answers of the endpoint\<close>

text \<open>
  Where the body of the request is read as JSON and the variable \<open>input\<close> is bound from
  it, which is so for every JSON value but \<open>null\<close>: if \<open>input\<close> is missing, is not a
  string, or is empty or blank, the answer has status 400 and an error body, whatever
  the credential; if \<open>input\<close> is a string that is not blank and the credential is absent
  (or empty), the answer has status 500 and an error body; if \<open>input\<close> is a string that
  is not blank and the model call throws, the answer has status 500 and an error body.
  Whatever is thrown before or after, the answer has status 500 and an error body.
\<close>

lemma POST_error_statuses:
  "(destructure_input m v = Inr input \<and>
      (input = None \<or> \<not> typeof_string input \<or> (\<exists>s. input = Some (JString s) \<and> trim s = [])) \<longrightarrow>
      error_response 400 (fst (POST m (Json_resolved v) api_key generated))) \<and>
   (destructure_input m v = Inr (Some (JString s)) \<and> trim s \<noteq> [] \<and> present api_key = None \<longrightarrow>
      error_response 500 (fst (POST m (Json_resolved v) api_key generated))) \<and>
   (destructure_input m v = Inr (Some (JString s)) \<and> trim s \<noteq> [] \<longrightarrow>
      error_response 500 (fst (POST m (Json_resolved v) api_key (Model_throws e)))) \<and>
   (destructure_input m v = Inl e \<longrightarrow>
      error_response 500 (fst (POST m (Json_resolved v) api_key generated))) \<and>
   error_response 500 (fst (POST m (Json_rejected e) api_key generated))"
  using catch_block_500 trim_nonempty
  by (auto simp: POST_def error_response_def truthy_def typeof_string_def
      split: option.splits json.splits sum.splits model_outcome.splits)

text \<open>
  Instances: a body without \<open>input\<close>, with a number as \<open>input\<close> and with a blank
  \<open>input\<close> get 400 without a credential; a proper \<open>input\<close> gets 500 without a
  credential, and 500 with one when the model call throws.
\<close>

lemma POST_error_statuses_instances:
  "error_response 400 (fst (POST node_type_error (Json_resolved (JObject [(''task'', JString ''buy milk'')])) None (Model_object meeting))) \<and>
   error_response 400 (fst (POST node_type_error (Json_resolved (JObject [(''input'', JNumber 7)])) None (Model_object meeting))) \<and>
   error_response 400 (fst (POST node_type_error (Json_resolved (JObject [(''input'', JString ''   '')])) None (Model_object meeting))) \<and>
   error_response 500 (fst (POST node_type_error (Json_resolved (JObject [(''input'', JString ''buy milk'')])) None (Model_object meeting))) \<and>
   error_response 500 (fst (POST node_type_error (Json_resolved (JObject [(''input'', JString ''buy milk'')])) (Some ''key'')
      (Model_throws (Thrown True ''quota exceeded'' (Some 429)))))"
proof -
  have a: "destructure_input node_type_error (JObject [(''task'', JString ''buy milk'')]) = Inr None"
    and b: "destructure_input node_type_error (JObject [(''input'', JNumber 7)]) = Inr (Some (JNumber 7))"
    and c: "destructure_input node_type_error (JObject [(''input'', JString ''   '')]) =
      Inr (Some (JString ''   ''))"
    and d: "destructure_input node_type_error (JObject [(''input'', JString ''buy milk'')]) =
      Inr (Some (JString ''buy milk''))"
    by (simp_all add: destructure_input_def)
  have t: "trim ''   '' = []" and u: "trim ''buy milk'' \<noteq> []"
    by (simp_all add: trim_def isWhiteSpace_def)
  show ?thesis
    using a b c d t u
      POST_error_statuses [where m = node_type_error
        and v = "JObject [(''task'', JString ''buy milk'')]" and input = None
        and api_key = None and generated = "Model_object meeting"]
      POST_error_statuses [where m = node_type_error
        and v = "JObject [(''input'', JNumber 7)]" and input = "Some (JNumber 7)"
        and api_key = None and generated = "Model_object meeting"]
      POST_error_statuses [where m = node_type_error
        and v = "JObject [(''input'', JString ''   '')]"
        and input = "Some (JString ''   '')" and api_key = None and generated = "Model_object meeting"]
      POST_error_statuses [where m = node_type_error
        and v = "JObject [(''input'', JString ''buy milk'')]" and s = "''buy milk''"
        and api_key = None and generated = "Model_object meeting"]
      POST_error_statuses [where m = node_type_error
        and v = "JObject [(''input'', JString ''buy milk'')]" and s = "''buy milk''"
        and api_key = "Some ''key''" and e = "Thrown True ''quota exceeded'' (Some 429)"]
    by (simp add: typeof_string_def present_def)
qed

text \<open>
  Claim C2 says that a request whose body has no \<open>input\<close> is answered with status 400.
  The check of the handler does so for every body from which \<open>input\<close> is bound: the empty
  object, an array, a number and a string as body all get 400. The body \<open>null\<close> and a
  body that is not JSON have no \<open>input\<close> either, and are answered with status 500:
  \<open>input\<close> is bound, and the body read, inside the \<open>try\<close> block before the check, and
  what they throw is answered by the \<open>catch\<close> block. The credential and the model call
  play no part in any of these answers.
\<close>

theorem POST_without_input:
  "error_response 500 (fst (POST m (Json_resolved JNull) api_key generated)) \<and>
   error_response 500 (fst (POST m (Json_rejected e) api_key generated)) \<and>
   error_response 400 (fst (POST m (Json_resolved (JObject [])) api_key generated)) \<and>
   error_response 400 (fst (POST m (Json_resolved (JArray xs)) api_key generated)) \<and>
   error_response 400 (fst (POST m (Json_resolved (JNumber n)) api_key generated)) \<and>
   error_response 400 (fst (POST m (Json_resolved (JString s)) api_key generated))"
  using catch_block_500
  by (simp add: POST_def destructure_input_def error_response_def truthy_def typeof_string_def)

text \<open>
  An instance, with a credential in place: the body \<open>null\<close> and the empty body get 500,
  the empty object gets 400.
\<close>

theorem POST_without_input_witness:
  "status (fst (POST node_type_error (Json_resolved JNull) (Some ''key'') (Model_object meeting))) = 500 \<and>
   status (fst (POST node_type_error (Json_rejected (Thrown True ''Unexpected end of JSON input'' None))
     (Some ''key'') (Model_object meeting))) = 500 \<and>
   status (fst (POST node_type_error (Json_resolved (JObject [])) (Some ''key'') (Model_object meeting))) = 400"
  using POST_without_input [of node_type_error "Some ''key''" "Model_object meeting"
      "Thrown True ''Unexpected end of JSON input'' None" "[]" 0 "[]"]
  by (simp add: error_response_def)

section \<open>What the form submits\<close>

text \<open>
  Claim C5. For every object that the endpoint returns, where a field counts as there
  when the source's test of it succeeds (it is present and not the empty string): with a
  due date \<open>d\<close> and a due time \<open>t\<close> the combined value is \<open>d\<close>, the letter T and \<open>t\<close>;
  with a due date \<open>d\<close> and no due time it is \<open>d\<close> followed by \<open>T09:00\<close>; with no due
  date it is the empty string, whatever the due time. This value is the due date that
  the form is filled with, and the due date of the record that the automatic path
  submits.
\<close>

theorem dueDateValue_cases:
  "(present (schema_due_date result) = Some d \<and> present (schema_due_time result) = Some t \<longrightarrow>
      dueDateValue result = d @ ''T'' @ t) \<and>
   (present (schema_due_date result) = Some d \<and> present (schema_due_time result) = None \<longrightarrow>
      dueDateValue result = d @ ''T09:00'') \<and>
   (present (schema_due_date result) = None \<longrightarrow> dueDateValue result = []) \<and>
   (trim (aiInput f) \<noteq> [] \<longrightarrow>
      data_due_date (formData (fst (handleAiGenerate False (Response_ok result) f))) =
        Some (dueDateValue result) \<and>
      map_option data_due_date (fst (snd (handleAiGenerate True (Response_ok result) f))) =
        Some (Some (dueDateValue result)))"
  by (simp add: dueDateValue_def handleAiGenerate_def generatedData_def)

text \<open>
  An instance: a due date 2024-01-02 without a due time fills the form with
  2024-01-02T09:00.
\<close>

theorem dueDateValue_cases_witness:
  "present (schema_due_date meeting) = Some ''2024-01-02'' \<and>
   present (schema_due_time meeting) = None \<and>
   dueDateValue meeting = ''2024-01-02T09:00'' \<and>
   trim (aiInput sample_form) \<noteq> [] \<and>
   data_due_date (formData (fst (handleAiGenerate False (Response_ok meeting) sample_form))) =
     Some ''2024-01-02T09:00''"
proof -
  have d: "present (schema_due_date meeting) = Some ''2024-01-02''"
    and t: "present (schema_due_time meeting) = None"
    by (simp_all add: meeting_def present_def)
  have i: "trim (aiInput sample_form) \<noteq> []"
    by (simp add: sample_form_def trim_def isWhiteSpace_def)
  show ?thesis
    using d t i dueDateValue_cases [of meeting "''2024-01-02''" "[]" sample_form] by simp
qed

text \<open>
  Claim C4 says that every record passed to the submit handler has a title that is not
  blank. The manual path keeps to it (\<open>TodoForm_handleSubmit_title\<close>); the automatic
  path does not check the title: for an answer of the endpoint with an empty title it
  submits a record with an empty title, and the page inserts a row with an empty title.
\<close>

theorem handleAiGenerate_submits_blank_title:
  "fst (snd (handleAiGenerate True (Response_ok untitled) sample_form)) = Some (generatedData untitled) \<and>
   trim (data_title (generatedData untitled)) = [] \<and>
   snd (HomePage_handleSubmit Write_ok (Select_data None) (generatedData untitled) sample_page) ! 1 =
     Await_insert ''u1''
       \<lparr>row_title = [], row_description = None, row_due_date = None, row_priority = medium,
        row_category = []\<rparr>"
  by (simp add: handleAiGenerate_def generatedData_def HomePage_handleSubmit_def row_of_def
      fetchTodos_def dueDateValue_def or_medium_def trim_def isWhiteSpace_def
      untitled_def sample_form_def sample_page_def present_def)

end
